theory Spec2Isabelle
  imports Main "HOL-Library.Word"
begin

section \<open>Python values used by pass-to-keepassxc.py\<close>

text \<open>
  A Python \<^verbatim>\<open>str\<close> is a sequence of Unicode code points, so it is modelled as a list
  of natural numbers; \<open>ascii\<close> writes an ASCII literal of the source as such a list.
  \<^verbatim>\<open>bytes\<close> are lists of 8-bit words. Every exception the script can raise is a
  constructor of \<open>exn\<close>, and a computation that may raise returns \<open>exn + 'a\<close>.
\<close>

type_synonym codepoint = nat
type_synonym str = "codepoint list"
type_synonym bytes = "8 word list"

abbreviation (input) ascii :: "string \<Rightarrow> str" where
  "ascii cs \<equiv> map of_char cs"

datatype exn = IndexError | ValueError | UnicodeDecodeError | OSError

subsection \<open>String methods\<close>

text \<open>\<^verbatim>\<open>s.split(sep)\<close> for a one-character separator: never an empty list.\<close>

fun str_split :: "str \<Rightarrow> codepoint \<Rightarrow> str list" where
  "str_split [] sep = [[]]"
| "str_split (c # cs) sep =
     (if c = sep then [] # str_split cs sep
      else (case str_split cs sep of
              [] \<Rightarrow> [[c]]
            | l # ls \<Rightarrow> (c # l) # ls))"

text \<open>\<^verbatim>\<open>sep.join(xs)\<close>.\<close>

fun join :: "str \<Rightarrow> str list \<Rightarrow> str" where
  "join sep [] = []"
| "join sep [x] = x"
| "join sep (x # y # ys) = x @ sep @ join sep (y # ys)"

definition startswith :: "str \<Rightarrow> str \<Rightarrow> bool" where
  "startswith s p = (take (length p) s = p)"

definition endswith :: "str \<Rightarrow> str \<Rightarrow> bool" where
  "endswith s p = (length p \<le> length s \<and> drop (length s - length p) s = p)"

definition removeprefix :: "str \<Rightarrow> str \<Rightarrow> str" where
  "removeprefix s p = (if startswith s p then drop (length p) s else s)"

definition removesuffix :: "str \<Rightarrow> str \<Rightarrow> str" where
  "removesuffix s p =
     (if p \<noteq> [] \<and> endswith s p then take (length s - length p) s else s)"

text \<open>
  The code points for which \<^verbatim>\<open>str.isspace\<close> holds; \<^verbatim>\<open>s.strip()\<close> removes them
  from both ends.
\<close>

definition isspace :: "codepoint \<Rightarrow> bool" where
  "isspace c =
     ((0x09 \<le> c \<and> c \<le> 0x0D) \<or> (0x1C \<le> c \<and> c \<le> 0x20) \<or> c = 0x85 \<or> c = 0xA0
      \<or> c = 0x1680 \<or> (0x2000 \<le> c \<and> c \<le> 0x200A) \<or> c = 0x2028 \<or> c = 0x2029
      \<or> c = 0x202F \<or> c = 0x205F \<or> c = 0x3000)"

definition strip :: "str \<Rightarrow> str" where
  "strip s = rev (dropWhile isspace (rev (dropWhile isspace s)))"

subsection \<open>List operations\<close>

text \<open>\<^verbatim>\<open>xs[i]\<close> for \<open>i \<ge> 0\<close>: IndexError out of range.\<close>

definition getitem :: "'a list \<Rightarrow> nat \<Rightarrow> exn + 'a" where
  "getitem xs i = (if i < length xs then Inr (xs ! i) else Inl IndexError)"

text \<open>\<^verbatim>\<open>xs.remove(x)\<close>: drops the first element equal to \<open>x\<close>, ValueError when there is none.\<close>

definition list_remove :: "'a list \<Rightarrow> 'a \<Rightarrow> exn + 'a list" where
  "list_remove xs x = (if x \<in> set xs then Inr (remove1 x xs) else Inl ValueError)"

text \<open>\<^verbatim>\<open>a or b\<close> on an optional string: \<open>None\<close> and the empty string are falsy.\<close>

definition py_or :: "str option \<Rightarrow> str \<Rightarrow> str" where
  "py_or a b = (case a of None \<Rightarrow> b | Some s \<Rightarrow> if s = [] then b else s)"

section \<open>The record parser\<close>

text \<open>
  \<^verbatim>\<open>next((x for x in it if x.startswith(m)), None)\<close> is \<open>find\<close>; the line found is
  removed from \<open>it\<close> before the next marker is looked for, and the prefix of a
  \<^verbatim>\<open>login:\<close> or \<^verbatim>\<open>url:\<close> line is cut off and the rest stripped.
\<close>

definition take_marker :: "str \<Rightarrow> str list \<Rightarrow> exn + (str option \<times> str list)" where
  "take_marker m it =
     (case find (\<lambda>x. startswith x m) it of
        None \<Rightarrow> Inr (None, it)
      | Some x \<Rightarrow> (case list_remove it x of
                    Inl e \<Rightarrow> Inl e
                  | Inr it' \<Rightarrow> Inr (Some x, it')))"

definition parse_pass_format ::
  "str \<Rightarrow> exn + (str \<times> str \<times> str option \<times> str option \<times> str option)" where
  "parse_pass_format src =
     (let it = str_split src 0x0A in
      case getitem it 0 of
        Inl e \<Rightarrow> Inl e
      | Inr password \<Rightarrow>
     (case take_marker (ascii ''otpauth://'') it of
        Inl e \<Rightarrow> Inl e
      | Inr (totp, it) \<Rightarrow>
     (case take_marker (ascii ''login:'') it of
        Inl e \<Rightarrow> Inl e
      | Inr (username, it) \<Rightarrow>
     (let username = map_option (\<lambda>u. strip (removeprefix u (ascii ''login:''))) username in
      case take_marker (ascii ''url:'') it of
        Inl e \<Rightarrow> Inl e
      | Inr (url, it) \<Rightarrow>
     (let url = map_option (\<lambda>u. strip (removeprefix u (ascii ''url:''))) url;
          notes = join [0x0A] (drop 1 it)
      in Inr (password, notes, totp, username, url))))))"

section \<open>Element trees\<close>

text \<open>
  An \<^verbatim>\<open>xml.etree.ElementTree.Element\<close>: tag, attributes (a dict, in insertion
  order), text, tail and children. The script reaches an element only through the
  object that owns the tree it stands in, so a reference to an element is its position
  below the root of that tree: the list of child indices leading to it. A mutation
  through a reference rewrites the tree at that position; a reference that leads
  nowhere leaves the tree as it is (every reference of the script comes from
  \<open>SubElement\<close>, which returns the position it has just filled). The script never
  sets a tail.
\<close>

datatype element =
  Element (tag: str) (attrib: "(str \<times> str) list") (text': "str option")
    (tail: "str option") (children: "element list")

type_synonym ref = "nat list"

fun modify :: "ref \<Rightarrow> (element \<Rightarrow> element) \<Rightarrow> element \<Rightarrow> element"
  and modify_nth :: "nat \<Rightarrow> ref \<Rightarrow> (element \<Rightarrow> element) \<Rightarrow> element list \<Rightarrow> element list" where
  "modify [] f e = f e"
| "modify (i # p) f (Element t a x y cs) = Element t a x y (modify_nth i p f cs)"
| "modify_nth i p f [] = []"
| "modify_nth 0 p f (c # cs) = modify p f c # cs"
| "modify_nth (Suc i) p f (c # cs) = c # modify_nth i p f cs"

fun deref :: "ref \<Rightarrow> element \<Rightarrow> element option" where
  "deref [] e = Some e"
| "deref (i # p) e = (if i < length (children e) then deref p (children e ! i) else None)"

text \<open>\<^verbatim>\<open>ET.Element(tag)\<close>: no attributes, no text, no tail, no children.\<close>

definition new_Element :: "str \<Rightarrow> element" where
  "new_Element t = Element t [] None None []"

definition append_elem :: "element \<Rightarrow> element \<Rightarrow> element" where
  "append_elem child e = Element (tag e) (attrib e) (text' e) (tail e) (children e @ [child])"

definition extend_elem :: "element list \<Rightarrow> element \<Rightarrow> element" where
  "extend_elem elements e = Element (tag e) (attrib e) (text' e) (tail e) (children e @ elements)"

text \<open>
  \<^verbatim>\<open>ET.SubElement(parent, tag)\<close> in the tree \<open>root\<close>: a new element becomes the last
  child of \<open>parent\<close>; the result is the reference to it and the tree.
\<close>

definition SubElement :: "ref \<Rightarrow> str \<Rightarrow> element \<Rightarrow> ref \<times> element" where
  "SubElement parent t root =
     (case deref parent root of
        None \<Rightarrow> (parent, root)
      | Some p \<Rightarrow> (parent @ [length (children p)], modify parent (append_elem (new_Element t)) root))"

text \<open>\<^verbatim>\<open>e.text = v\<close> and \<^verbatim>\<open>e.set(k, v)\<close> through a reference.\<close>

definition set_text :: "ref \<Rightarrow> str option \<Rightarrow> element \<Rightarrow> element" where
  "set_text r v root = modify r (\<lambda>e. Element (tag e) (attrib e) v (tail e) (children e)) root"

fun dict_set :: "str \<Rightarrow> str \<Rightarrow> (str \<times> str) list \<Rightarrow> (str \<times> str) list" where
  "dict_set k v [] = [(k, v)]"
| "dict_set k v ((k', v') # kvs) =
     (if k' = k then (k, v) # kvs else (k', v') # dict_set k v kvs)"

definition set_attr :: "ref \<Rightarrow> str \<Rightarrow> str \<Rightarrow> element \<Rightarrow> element" where
  "set_attr r k v root =
     modify r (\<lambda>e. Element (tag e) (dict_set k v (attrib e)) (text' e) (tail e) (children e)) root"

subsection \<open>Serialization\<close>

text \<open>
  \<^verbatim>\<open>s.replace(old, new)\<close> for a one-character \<open>old\<close>, and the two escaping functions
  of \<^verbatim>\<open>xml.etree.ElementTree\<close>: each replaces one character after the other, the
  ampersand first.
\<close>

definition replace :: "str \<Rightarrow> codepoint \<Rightarrow> str \<Rightarrow> str" where
  "replace s old new = concat (map (\<lambda>c. if c = old then new else [c]) s)"

definition escape_cdata :: "str \<Rightarrow> str" where
  "escape_cdata t =
     (let t = (if 0x26 \<in> set t then replace t 0x26 (ascii ''&amp;'') else t);
          t = (if 0x3C \<in> set t then replace t 0x3C (ascii ''&lt;'') else t);
          t = (if 0x3E \<in> set t then replace t 0x3E (ascii ''&gt;'') else t)
      in t)"

definition escape_attrib :: "str \<Rightarrow> str" where
  "escape_attrib t =
     (let t = (if 0x26 \<in> set t then replace t 0x26 (ascii ''&amp;'') else t);
          t = (if 0x3C \<in> set t then replace t 0x3C (ascii ''&lt;'') else t);
          t = (if 0x3E \<in> set t then replace t 0x3E (ascii ''&gt;'') else t);
          t = (if 0x22 \<in> set t then replace t 0x22 (ascii ''&quot;'') else t);
          t = (if 0x0D \<in> set t then replace t 0x0D (ascii ''&#13;'') else t);
          t = (if 0x0A \<in> set t then replace t 0x0A (ascii ''&#10;'') else t);
          t = (if 0x09 \<in> set t then replace t 0x09 (ascii ''&#09;'') else t)
      in t)"

text \<open>An optional string is truthy when it is there and not empty.\<close>

definition truthy :: "str option \<Rightarrow> bool" where
  "truthy v = (case v of None \<Rightarrow> False | Some s \<Rightarrow> s \<noteq> [])"

definition write_cdata :: "str option \<Rightarrow> str" where
  "write_cdata v = (case v of None \<Rightarrow> [] | Some s \<Rightarrow> if s = [] then [] else escape_cdata s)"

definition write_attrib :: "str \<times> str \<Rightarrow> str" where
  "write_attrib kv = ascii '' '' @ fst kv @ ascii ''=\"'' @ escape_attrib (snd kv) @ ascii ''\"''"

text \<open>
  \<^verbatim>\<open>_serialize_xml\<close> on plain tags (no namespace, no comment, no processing
  instruction: the script creates none), with \<^verbatim>\<open>short_empty_elements=True\<close>: an
  element with neither text nor children is written \<^verbatim>\<open><tag />\<close>.
\<close>

fun serialize_xml :: "element \<Rightarrow> str" where
  "serialize_xml (Element t a x y cs) =
     ascii ''<'' @ t @ concat (map write_attrib a) @
     (if truthy x \<or> cs \<noteq> []
      then ascii ''>'' @ write_cdata x @ concat (map serialize_xml cs) @ ascii ''</'' @ t @ ascii ''>''
      else ascii '' />'') @
     write_cdata y"

text \<open>\<^verbatim>\<open>ET.tostring(e, encoding='unicode')\<close>: no XML declaration, the text as a \<^verbatim>\<open>str\<close>.\<close>

definition tostring :: "element \<Rightarrow> str" where
  "tostring e = serialize_xml e"

section \<open>The entry builder\<close>

text \<open>
  A \<^verbatim>\<open>KeepassXCEntry\<close> has one attribute, \<^verbatim>\<open>root\<close>, the \<^verbatim>\<open>Entry\<close> element; the
  references of its methods are positions below that element. An argument may be
  \<^verbatim>\<open>None\<close>.
\<close>

type_synonym KeepassXCEntry = element

definition add_string_field :: "str \<Rightarrow> str option \<Rightarrow> KeepassXCEntry \<Rightarrow> KeepassXCEntry" where
  "add_string_field k v root =
     (let (string, root) = SubElement [] (ascii ''String'') root;
          (key, root) = SubElement string (ascii ''Key'') root;
          root = set_text key (Some k) root;
          (val, root) = SubElement string (ascii ''Value'') root;
          root = set_text val v root;
          root = set_attr val (ascii ''ProtectInMemory'') (ascii ''True'') root
      in root)"

definition add_auto_type :: "KeepassXCEntry \<Rightarrow> KeepassXCEntry" where
  "add_auto_type root =
     (let (autotype, root) = SubElement [] (ascii ''AutoType'') root;
          (enabled, root) = SubElement autotype (ascii ''Enabled'') root;
          root = set_text enabled (Some (ascii ''True'')) root;
          (dto, root) = SubElement autotype (ascii ''DataTransferObfuscation'') root;
          root = set_text dto (Some (ascii ''0'')) root;
          (ds, root) = SubElement autotype (ascii ''DefaultSequence'') root
      in root)"

definition KeepassXCEntry_init ::
  "str option \<Rightarrow> str option \<Rightarrow> str option \<Rightarrow> str option \<Rightarrow> str option \<Rightarrow> str option
     \<Rightarrow> KeepassXCEntry" where
  "KeepassXCEntry_init username password url title notes totp =
     (let root = new_Element (ascii ''Entry'');
          root = add_string_field (ascii ''Notes'') notes root;
          root = add_string_field (ascii ''UserName'') username root;
          root = add_string_field (ascii ''Password'') password root;
          root = add_string_field (ascii ''URL'') url root;
          root = add_string_field (ascii ''Title'') title root;
          root = add_string_field (ascii ''otp'') totp root;
          root = add_auto_type root
      in root)"

section \<open>The document builder\<close>

text \<open>
  A \<^verbatim>\<open>KeepassXCDump\<close> owns the \<^verbatim>\<open>KeePassFile\<close> tree; its \<^verbatim>\<open>root\<close> attribute is a
  reference into that tree (the top-level group), and \<^verbatim>\<open>add_group\<close> mutates the tree
  through it.
\<close>

record KeepassXCDump =
  KeePassFile :: element
  root :: ref

definition KeepassXCDump_init :: KeepassXCDump where
  "KeepassXCDump_init =
     (let kpf = new_Element (ascii ''KeePassFile'');
          (Root, kpf) = SubElement [] (ascii ''Root'') kpf;
          (root, kpf) = SubElement Root (ascii ''Group'') kpf;
          (root_name, kpf) = SubElement root (ascii ''Name'') kpf;
          kpf = set_text root_name (Some (ascii ''Root'')) kpf
      in \<lparr>KeePassFile = kpf, root = root\<rparr>)"

definition add_group :: "str \<Rightarrow> KeepassXCEntry list \<Rightarrow> KeepassXCDump \<Rightarrow> KeepassXCDump" where
  "add_group name entries self =
     (let (group_root, kpf) = SubElement (root self) (ascii ''Group'') (KeePassFile self);
          (group_name, kpf) = SubElement group_root (ascii ''Name'') kpf;
          kpf = set_text group_name (Some name) kpf;
          kpf = modify group_root (extend_elem entries) kpf
      in self\<lparr>KeePassFile := kpf\<rparr>)"

definition KeepassXCDump_str :: "KeepassXCDump \<Rightarrow> str" where
  "KeepassXCDump_str self = tostring (KeePassFile self)"

section \<open>The password store and the decryption collaborator\<close>

text \<open>
  \<^verbatim>\<open>b.decode('utf-8')\<close>: the strict decoder accepts exactly the well-formed byte
  sequences (no overlong form, no surrogate, nothing above U+10FFFF) and raises
  UnicodeDecodeError on anything else.
\<close>

definition cont :: "nat \<Rightarrow> bool" where
  "cont b = (0x80 \<le> b \<and> b \<le> 0xBF)"

definition second3 :: "nat \<Rightarrow> nat \<Rightarrow> bool" where
  "second3 b0 b1 =
     (if b0 = 0xE0 then 0xA0 \<le> b1 \<and> b1 \<le> 0xBF
      else if b0 = 0xED then 0x80 \<le> b1 \<and> b1 \<le> 0x9F
      else cont b1)"

definition second4 :: "nat \<Rightarrow> nat \<Rightarrow> bool" where
  "second4 b0 b1 =
     (if b0 = 0xF0 then 0x90 \<le> b1 \<and> b1 \<le> 0xBF
      else if b0 = 0xF4 then 0x80 \<le> b1 \<and> b1 \<le> 0x8F
      else cont b1)"

fun utf8 :: "nat list \<Rightarrow> str option" where
  "utf8 [] = Some []"
| "utf8 (b0 # bs) =
     (if b0 < 0x80 then map_option ((#) b0) (utf8 bs)
      else if 0xC2 \<le> b0 \<and> b0 \<le> 0xDF then
        (case bs of
           b1 # r \<Rightarrow>
             if cont b1
             then map_option ((#) ((b0 - 0xC0) * 0x40 + (b1 - 0x80))) (utf8 r)
             else None
         | _ \<Rightarrow> None)
      else if 0xE0 \<le> b0 \<and> b0 \<le> 0xEF then
        (case bs of
           b1 # b2 # r \<Rightarrow>
             if second3 b0 b1 \<and> cont b2
             then map_option
                    ((#) ((b0 - 0xE0) * 0x1000 + (b1 - 0x80) * 0x40 + (b2 - 0x80))) (utf8 r)
             else None
         | _ \<Rightarrow> None)
      else if 0xF0 \<le> b0 \<and> b0 \<le> 0xF4 then
        (case bs of
           b1 # b2 # b3 # r \<Rightarrow>
             if second4 b0 b1 \<and> cont b2 \<and> cont b3
             then map_option
                    ((#) ((b0 - 0xF0) * 0x40000 + (b1 - 0x80) * 0x1000 + (b2 - 0x80) * 0x40
                          + (b3 - 0x80))) (utf8 r)
             else None
         | _ \<Rightarrow> None)
      else None)"

definition decode :: "bytes \<Rightarrow> exn + str" where
  "decode b = (case utf8 (map unat b) of None \<Rightarrow> Inl UnicodeDecodeError | Some s \<Rightarrow> Inr s)"

text \<open>
  What \<^verbatim>\<open>subprocess.run([...], capture_output=True)\<close> returns: the exit status of
  the process and what it wrote to its standard output. The password store is a tree of
  directories, files and other nodes (neither \<^verbatim>\<open>is_dir()\<close> nor \<^verbatim>\<open>is_file()\<close>),
  children in the order \<^verbatim>\<open>iterdir()\<close> yields them; a file carries what running gpg on
  it returns. A run of gpg that cannot be started at all raises inside
  \<^verbatim>\<open>subprocess.run\<close>; the model has no such file.
\<close>

record CompletedProcess =
  returncode :: int
  stdout :: bytes

datatype node = Dir str "node list" | File str CompletedProcess | Other str

fun node_name :: "node \<Rightarrow> str" where
  "node_name (Dir n cs) = n"
| "node_name (File n p) = n"
| "node_name (Other n) = n"

text \<open>A \<^verbatim>\<open>Path\<close> of a file: its own name, the name of its parent, and gpg's answer.\<close>

record Path =
  file_name :: str
  parent_name :: str
  gpg :: CompletedProcess

text \<open>
  \<^verbatim>\<open>find_files(directory)\<close>, on the name and the children of the directory: the
  files below it, hidden nodes left out at every level. \<^verbatim>\<open>x.name[0]\<close> raises on an
  empty name.
\<close>

fun find_files :: "str \<Rightarrow> node list \<Rightarrow> exn + Path list" where
  "find_files d [] = Inr []"
| "find_files d (Dir n cs # nodes) =
     (case getitem n 0 of
        Inl e \<Rightarrow> Inl e
      | Inr c \<Rightarrow>
          if c = 0x2E then find_files d nodes
          else (case find_files n cs of
                  Inl e \<Rightarrow> Inl e
                | Inr xs \<Rightarrow> (case find_files d nodes of
                              Inl e \<Rightarrow> Inl e
                            | Inr ys \<Rightarrow> Inr (xs @ ys))))"
| "find_files d (File n p # nodes) =
     (case getitem n 0 of
        Inl e \<Rightarrow> Inl e
      | Inr c \<Rightarrow>
          if c = 0x2E then find_files d nodes
          else (case find_files d nodes of
                  Inl e \<Rightarrow> Inl e
                | Inr ys \<Rightarrow> Inr (\<lparr>file_name = n, parent_name = d, gpg = p\<rparr> # ys)))"
| "find_files d (Other n # nodes) =
     (case getitem n 0 of
        Inl e \<Rightarrow> Inl e
      | Inr c \<Rightarrow> find_files d nodes)"

text \<open>\<^verbatim>\<open>decrypt\<close>: the standard output of the gpg run, decoded; the exit status is not read.\<close>

definition decrypt :: "CompletedProcess \<Rightarrow> exn + str" where
  "decrypt out = decode (stdout out)"

section \<open>The driver\<close>

text \<open>
  The inner loop of the directory branch, over the files \<^verbatim>\<open>find_files\<close> yields:
  \<open>keepassxc_entries\<close> grows by one entry per file whose content decodes.
\<close>

fun directory_loop :: "Path list \<Rightarrow> KeepassXCEntry list \<Rightarrow> exn + KeepassXCEntry list" where
  "directory_loop [] keepassxc_entries = Inr keepassxc_entries"
| "directory_loop (entry # rest) keepassxc_entries =
     (let username = removesuffix (file_name entry) (ascii ''.gpg'') in
      case decrypt (gpg entry) of
        Inl e \<Rightarrow> if e = UnicodeDecodeError then directory_loop rest keepassxc_entries else Inl e
      | Inr file_contents \<Rightarrow>
     (case parse_pass_format file_contents of
        Inl e \<Rightarrow> Inl e
      | Inr (password, notes, totp, _, url_parsed) \<Rightarrow>
     (let url = py_or url_parsed (parent_name entry) in
      directory_loop rest
        (keepassxc_entries @
           [KeepassXCEntry_init (Some username) (Some password) (Some url) (Some username)
              (Some notes) totp]))))"

text \<open>The outer loop, over the children of the password store directory.\<close>

fun main_loop :: "node list \<Rightarrow> KeepassXCDump \<Rightarrow> exn + KeepassXCDump" where
  "main_loop [] out = Inr out"
| "main_loop (group' # rest) out =
     (case getitem (node_name group') 0 of
        Inl e \<Rightarrow> Inl e
      | Inr c \<Rightarrow>
          if c = 0x2E then main_loop rest out
          else (case group' of
            Dir n cs \<Rightarrow>
              (case find_files n cs of
                 Inl e \<Rightarrow> Inl e
               | Inr files \<Rightarrow>
              (case directory_loop files [] of
                 Inl e \<Rightarrow> Inl e
               | Inr keepassxc_entries \<Rightarrow>
                   main_loop rest (add_group (removesuffix n (ascii ''.gpg'')) keepassxc_entries out)))
          | File n p \<Rightarrow>
              (let filename = removesuffix n (ascii ''.gpg'') in
               case decrypt p of
                 Inl e \<Rightarrow> if e = UnicodeDecodeError then main_loop rest out else Inl e
               | Inr file_contents \<Rightarrow>
              (case parse_pass_format file_contents of
                 Inl e \<Rightarrow> Inl e
               | Inr (password, notes, totp, username, url_parsed) \<Rightarrow>
              (let url = py_or url_parsed filename;
                   keepassxc_entries =
                     [KeepassXCEntry_init username (Some password) (Some url) username
                        (Some notes) totp]
               in main_loop rest
                    (add_group (removesuffix n (ascii ''.gpg'')) keepassxc_entries out))))
          | Other n \<Rightarrow> main_loop rest out))"

text \<open>
  How a run ends: \<^verbatim>\<open>sys.exit(status)\<close> after the text written to standard output, or
  an exception nobody catches (the interpreter then prints a traceback and the exit
  status is 1). The file system answers \<^verbatim>\<open>Path(p).iterdir()\<close> with the children of a
  directory, and with an OSError for anything else.
\<close>

datatype outcome = Exit int str | Raised exn

fun exit_status :: "outcome \<Rightarrow> int" where
  "exit_status (Exit n out) = n"
| "exit_status (Raised e) = 1"

definition iterdir :: "(str \<Rightarrow> node option) \<Rightarrow> str \<Rightarrow> exn + node list" where
  "iterdir fs p = (case fs p of Some (Dir n cs) \<Rightarrow> Inr cs | _ \<Rightarrow> Inl OSError)"

definition main :: "str list \<Rightarrow> (str \<Rightarrow> node option) \<Rightarrow> outcome" where
  "main argv fs =
     (if length argv < 1 then Exit 1 []
      else (case getitem argv 1 of
              Inl e \<Rightarrow> Raised e
            | Inr password_store_dir \<Rightarrow>
           (case iterdir fs password_store_dir of
              Inl e \<Rightarrow> Raised e
            | Inr nodes \<Rightarrow>
           (case main_loop nodes KeepassXCDump_init of
              Inl e \<Rightarrow> Raised e
            | Inr out \<Rightarrow> Exit 0 (KeepassXCDump_str out @ [0x0A])))))"

section \<open>Shapes and renderings\<close>

text \<open>
  The notions the statements below are written in. They are not part of the script:
  the elements the builders are shown to produce, what can be read back from an
  element, and the text the serializer is shown to write.
\<close>

subsection \<open>Elements built by the script\<close>

definition string_field :: "str \<Rightarrow> str option \<Rightarrow> element" where
  "string_field k v =
     Element (ascii ''String'') [] None None
       [Element (ascii ''Key'') [] (Some k) None [],
        Element (ascii ''Value'') [(ascii ''ProtectInMemory'', ascii ''True'')] v None []]"

definition auto_type :: element where
  "auto_type =
     Element (ascii ''AutoType'') [] None None
       [Element (ascii ''Enabled'') [] (Some (ascii ''True'')) None [],
        Element (ascii ''DataTransferObfuscation'') [] (Some (ascii ''0'')) None [],
        Element (ascii ''DefaultSequence'') [] None None []]"

definition name_elem :: "str \<Rightarrow> element" where
  "name_elem n = Element (ascii ''Name'') [] (Some n) None []"

definition group_elem :: "str \<Rightarrow> element list \<Rightarrow> element" where
  "group_elem n es = Element (ascii ''Group'') [] None None (name_elem n # es)"

definition document :: "element list \<Rightarrow> element" where
  "document groups =
     Element (ascii ''KeePassFile'') [] None None
       [Element (ascii ''Root'') [] None None [group_elem (ascii ''Root'') groups]]"

text \<open>
  The six arguments of the \<^verbatim>\<open>KeepassXCEntry\<close> constructor, in its order, and the
  entry built from them.
\<close>

type_synonym args =
  "str option \<times> str option \<times> str option \<times> str option \<times> str option \<times> str option"

definition entry_of :: "args \<Rightarrow> KeepassXCEntry" where
  "entry_of a =
     (case a of (username, password, url, title, notes, totp) \<Rightarrow>
        KeepassXCEntry_init username password url title notes totp)"

subsection \<open>Reading an entry back\<close>

text \<open>
  \<^verbatim>\<open>e.find(t)\<close>, the first child with tag \<open>t\<close>; the key and the value text of every
  \<^verbatim>\<open>String\<close> child of an entry, in order; and the keys of those whose \<^verbatim>\<open>Value\<close> carries
  \<^verbatim>\<open>ProtectInMemory="True"\<close>.
\<close>

definition find_child :: "str \<Rightarrow> element \<Rightarrow> element option" where
  "find_child t e = find (\<lambda>c. tag c = t) (children e)"

definition string_fields :: "element \<Rightarrow> (str option \<times> str option) list" where
  "string_fields e =
     map (\<lambda>s. (Option.bind (find_child (ascii ''Key'') s) text',
                Option.bind (find_child (ascii ''Value'') s) text'))
       (filter (\<lambda>c. tag c = ascii ''String'') (children e))"

definition protected :: "element \<Rightarrow> bool" where
  "protected s =
     (case find_child (ascii ''Value'') s of
        None \<Rightarrow> False
      | Some v \<Rightarrow> map_of (attrib v) (ascii ''ProtectInMemory'') = Some (ascii ''True''))"

definition protected_keys :: "element \<Rightarrow> str option list" where
  "protected_keys e =
     map (\<lambda>s. Option.bind (find_child (ascii ''Key'') s) text')
       (filter protected (filter (\<lambda>c. tag c = ascii ''String'') (children e)))"

text \<open>An absent value replaced by the empty string.\<close>

definition or_empty :: "str option \<Rightarrow> str option" where
  "or_empty v = (case v of None \<Rightarrow> Some [] | Some s \<Rightarrow> Some s)"

subsection \<open>Text of the document\<close>

text \<open>
  Escaping one character at a time: the ampersand and the two angle brackets become
  entities, every other character stands for itself.
\<close>

definition escape_char :: "codepoint \<Rightarrow> str" where
  "escape_char c =
     (if c = 0x26 then ascii ''&amp;''
      else if c = 0x3C then ascii ''&lt;''
      else if c = 0x3E then ascii ''&gt;''
      else [c])"

definition name_xml :: "str \<Rightarrow> str" where
  "name_xml n =
     (if n = [] then ascii ''<Name />''
      else ascii ''<Name>'' @ concat (map escape_char n) @ ascii ''</Name>'')"

definition key_xml :: "str \<Rightarrow> str" where
  "key_xml k =
     (if k = [] then ascii ''<Key />''
      else ascii ''<Key>'' @ concat (map escape_char k) @ ascii ''</Key>'')"

definition value_xml :: "str option \<Rightarrow> str" where
  "value_xml v =
     (case v of
        None \<Rightarrow> ascii ''<Value ProtectInMemory=\"True\" />''
      | Some s \<Rightarrow>
          if s = [] then ascii ''<Value ProtectInMemory=\"True\" />''
          else ascii ''<Value ProtectInMemory=\"True\">'' @ concat (map escape_char s)
               @ ascii ''</Value>'')"

definition field_xml :: "str \<Rightarrow> str option \<Rightarrow> str" where
  "field_xml k v = ascii ''<String>'' @ key_xml k @ value_xml v @ ascii ''</String>''"

definition auto_type_xml :: str where
  "auto_type_xml = ascii ''<AutoType><Enabled>True</Enabled><DataTransferObfuscation>0</DataTransferObfuscation><DefaultSequence /></AutoType>''"

definition entry_xml :: "args \<Rightarrow> str" where
  "entry_xml a =
     (case a of (username, password, url, title, notes, totp) \<Rightarrow>
        ascii ''<Entry>'' @ field_xml (ascii ''Notes'') notes
        @ field_xml (ascii ''UserName'') username @ field_xml (ascii ''Password'') password
        @ field_xml (ascii ''URL'') url @ field_xml (ascii ''Title'') title
        @ field_xml (ascii ''otp'') totp @ auto_type_xml @ ascii ''</Entry>'')"

definition group_xml :: "str \<times> args list \<Rightarrow> str" where
  "group_xml g =
     (case g of (n, as) \<Rightarrow>
        ascii ''<Group>'' @ name_xml n @ concat (map entry_xml as) @ ascii ''</Group>'')"

subsection \<open>Values of a record\<close>



subsection \<open>Password stores compared\<close>






section \<open>Properties of the record parser\<close>

lemma str_split_not_Nil: "str_split s sep \<noteq> []"
  by (induction s) (auto split: list.splits)

lemma hd_str_split: "hd (str_split s sep) = takeWhile (\<lambda>c. c \<noteq> sep) s"
  by (induction s) (auto split: list.splits simp: str_split_not_Nil)

lemma getitem_str_split_0:
  "getitem (str_split s sep) 0 = Inr (takeWhile (\<lambda>c. c \<noteq> sep) s)"
  using str_split_not_Nil [of s sep] hd_str_split [of s sep]
  by (cases "str_split s sep") (auto simp: getitem_def)

lemma find_in_set: "find P xs = Some x \<Longrightarrow> x \<in> set xs"
  by (induction xs) (auto split: if_splits)

lemma take_marker_total:
  "take_marker m it =
     (case find (\<lambda>x. startswith x m) it of
        None \<Rightarrow> Inr (None, it)
      | Some x \<Rightarrow> Inr (Some x, remove1 x it))"
  by (auto simp: take_marker_def list_remove_def split: option.splits dest: find_in_set)






text \<open>Two records: one with every marker, one with none.\<close>

lemma parse_marker_scenario:
  "parse_pass_format
     (ascii ''secret\<newline>login: bob\<newline>url: example.com\<newline>otpauth://totp/X\<newline>line4'') =
   Inr (ascii ''secret'', ascii ''line4'', Some (ascii ''otpauth://totp/X''), Some (ascii ''bob''),
        Some (ascii ''example.com''))"
  by (simp add: parse_pass_format_def getitem_def take_marker_total startswith_def Let_def
        removeprefix_def strip_def isspace_def)

lemma parse_no_marker_scenario:
  "parse_pass_format (ascii ''p@ss\<newline>some note'') =
   Inr (ascii ''p@ss'', ascii ''some note'', None, None, None)"
  by (simp add: parse_pass_format_def getitem_def take_marker_total startswith_def Let_def)

text \<open>
  Claim C8. For every decrypted text (the empty one too), the parser returns, and the
  password is the part of the text before its first newline: the whole text when it has
  no newline.
\<close>

theorem C8_password_is_first_line:
  "\<exists>notes totp username url.
     parse_pass_format src =
       Inr (takeWhile (\<lambda>c. c \<noteq> 0x0A) src, notes, totp, username, url)"
  by (simp add: parse_pass_format_def getitem_str_split_0 take_marker_total Let_def
           split: option.split)

text \<open>
  Claim C1. The claim says that a first line beginning with a marker prefix is never
  consumed by a marker match and that the notes are the unconsumed lines from index 1
  on. The scan of the source runs over all the lines, the first included: on the three
  lines \<^verbatim>\<open>otpauth://x\<close>, \<^verbatim>\<open>note1\<close>, \<^verbatim>\<open>note2\<close> the first line is both the password
  and the one-time-password URI, it is removed from the list, and the notes lose the
  line \<^verbatim>\<open>note1\<close>.
\<close>

theorem C1_first_line_marker_is_consumed:
  "parse_pass_format (ascii ''otpauth://x\<newline>note1\<newline>note2'') =
     Inr (ascii ''otpauth://x'', ascii ''note2'', Some (ascii ''otpauth://x''), None, None)"
  by (simp add: parse_pass_format_def getitem_def take_marker_total startswith_def Let_def)

section \<open>Properties of the entry builder\<close>

text \<open>A mutation through the reference to the last child reaches that child.\<close>

lemma modify_nth_length:
  "modify_nth (length cs) p f (cs @ c # ds) = cs @ modify p f c # ds"
  by (induction cs) auto

lemma add_string_field_shape:
  "add_string_field k v (Element t a x y cs) = Element t a x y (cs @ [string_field k v])"
  by (simp add: add_string_field_def string_field_def new_Element_def SubElement_def
        set_text_def set_attr_def append_elem_def modify_nth_length Let_def)

lemma add_auto_type_shape:
  "add_auto_type (Element t a x y cs) = Element t a x y (cs @ [auto_type])"
  by (simp add: add_auto_type_def auto_type_def new_Element_def SubElement_def
        set_text_def append_elem_def modify_nth_length Let_def)

lemma KeepassXCEntry_init_shape:
  "KeepassXCEntry_init username password url title notes totp =
     Element (ascii ''Entry'') [] None None
       [string_field (ascii ''Notes'') notes, string_field (ascii ''UserName'') username,
        string_field (ascii ''Password'') password, string_field (ascii ''URL'') url,
        string_field (ascii ''Title'') title, string_field (ascii ''otp'') totp, auto_type]"
  by (simp add: KeepassXCEntry_init_def new_Element_def add_string_field_shape
        add_auto_type_shape)

lemma string_fields_entry:
  "string_fields (KeepassXCEntry_init username password url title notes totp) =
     [(Some (ascii ''Notes''), notes), (Some (ascii ''UserName''), username),
      (Some (ascii ''Password''), password), (Some (ascii ''URL''), url),
      (Some (ascii ''Title''), title), (Some (ascii ''otp''), totp)]"
  by (simp add: KeepassXCEntry_init_shape string_fields_def find_child_def string_field_def
        auto_type_def)

section \<open>Properties of the serializer\<close>

lemma replace_absent: "old \<notin> set s \<Longrightarrow> replace s old new = s"
  by (induction s) (auto simp: replace_def)

lemma replace_Nil: "replace [] old new = []"
  by (simp add: replace_def)

lemma replace_Cons: "replace (c # s) old new = (if c = old then new else [c]) @ replace s old new"
  by (simp add: replace_def)

lemma replace_append: "replace (s @ t) old new = replace s old new @ replace t old new"
  by (simp add: replace_def)

lemma escape_cdata_replace:
  "escape_cdata t =
     replace (replace (replace t 0x26 (ascii ''&amp;'')) 0x3C (ascii ''&lt;'')) 0x3E
       (ascii ''&gt;'')"
  by (simp add: escape_cdata_def Let_def replace_absent)

lemma escape_cdata_chars: "escape_cdata t = concat (map escape_char t)"
  unfolding escape_cdata_replace
  by (induction t) (simp_all add: replace_Nil replace_Cons replace_append escape_char_def)

lemma serialize_name_elem: "serialize_xml (name_elem n) = name_xml n"
  by (simp add: name_elem_def name_xml_def truthy_def write_cdata_def escape_cdata_chars)

lemma serialize_string_field: "serialize_xml (string_field k v) = field_xml k v"
  by (simp add: string_field_def field_xml_def key_xml_def value_xml_def truthy_def
        write_cdata_def write_attrib_def escape_cdata_chars escape_attrib_def
        split: option.split)

lemma serialize_auto_type: "serialize_xml auto_type = auto_type_xml"
  by (simp add: auto_type_def auto_type_xml_def truthy_def write_cdata_def escape_cdata_chars
        escape_char_def)

lemma tostring_entry:
  "tostring (KeepassXCEntry_init username password url title notes totp) =
     entry_xml (username, password, url, title, notes, totp)"
  by (simp add: tostring_def KeepassXCEntry_init_shape entry_xml_def serialize_string_field
        serialize_auto_type truthy_def write_cdata_def)

lemma value_xml_or_empty: "value_xml (or_empty v) = value_xml v"
  by (simp add: value_xml_def or_empty_def split: option.split)

lemma field_xml_or_empty: "field_xml k (or_empty v) = field_xml k v"
  by (simp add: field_xml_def value_xml_or_empty)

lemma serialize_entry_of: "serialize_xml (entry_of a) = entry_xml a"
  using tostring_entry by (cases a) (simp add: entry_of_def tostring_def)

lemma serialize_entries: "map (serialize_xml \<circ> entry_of) as = map entry_xml as"
  by (simp add: serialize_entry_of)

lemma serialize_group_elem_children:
  "serialize_xml (group_elem n es) =
     ascii ''<Group>'' @ name_xml n @ concat (map serialize_xml es) @ ascii ''</Group>''"
  by (simp add: group_elem_def serialize_name_elem truthy_def write_cdata_def)

lemma serialize_group_elem:
  "serialize_xml (group_elem n (map entry_of as)) = group_xml (n, as)"
  by (simp add: serialize_group_elem_children group_xml_def serialize_entries)

lemma serialize_groups:
  "map (serialize_xml \<circ> (\<lambda>(n, as). group_elem n (map entry_of as))) gs = map group_xml gs"
  by (induction gs) (auto simp: serialize_group_elem)

lemma serialize_document:
  "serialize_xml (document (map (\<lambda>(n, as). group_elem n (map entry_of as)) gs)) =
     ascii ''<KeePassFile><Root><Group><Name>Root</Name>'' @ concat (map group_xml gs)
     @ ascii ''</Group></Root></KeePassFile>''"
  by (simp add: document_def serialize_group_elem_children serialize_groups name_xml_def
        escape_char_def truthy_def write_cdata_def)

section \<open>Properties of the document builder\<close>

lemma KeepassXCDump_init_shape:
  "KeepassXCDump_init = \<lparr>KeePassFile = document [], root = [0, 0]\<rparr>"
  by (simp add: KeepassXCDump_init_def document_def group_elem_def name_elem_def new_Element_def
        SubElement_def set_text_def append_elem_def Let_def)

lemma add_group_shape:
  "add_group n es \<lparr>KeePassFile = document gs, root = [0, 0]\<rparr> =
     \<lparr>KeePassFile = document (gs @ [group_elem n es]), root = [0, 0]\<rparr>"
  by (simp add: add_group_def document_def group_elem_def name_elem_def new_Element_def
        SubElement_def set_text_def append_elem_def extend_elem_def modify_nth_length Let_def)

lemma fold_add_group_entries:
  "fold (\<lambda>(n, as). add_group n (map entry_of as)) xs
     \<lparr>KeePassFile = document gs, root = [0, 0]\<rparr> =
   \<lparr>KeePassFile = document (gs @ map (\<lambda>(n, as). group_elem n (map entry_of as)) xs),
     root = [0, 0]\<rparr>"
  by (induction xs arbitrary: gs) (auto simp: add_group_shape)

lemma add_groups_shape:
  "fold (\<lambda>(n, as). add_group n (map entry_of as)) gs KeepassXCDump_init =
     \<lparr>KeePassFile = document (map (\<lambda>(n, as). group_elem n (map entry_of as)) gs),
       root = [0, 0]\<rparr>"
  by (simp add: KeepassXCDump_init_shape fold_add_group_entries)

section \<open>Claims about entries and the document\<close>

text \<open>
  Claim C6. The claim says that a field whose input is absent is present with an
  empty-string value. The builder stores what it is given: for an absent user name, URL
  and one-time password the \<^verbatim>\<open>Value\<close> elements have no text at all, and the entry is
  not the entry built from empty strings.
\<close>

theorem C6_absent_value_is_not_the_empty_string:
  "string_fields
     (KeepassXCEntry_init None (Some (ascii ''p'')) None (Some (ascii ''t'')) (Some []) None) =
     [(Some (ascii ''Notes''), Some []), (Some (ascii ''UserName''), None),
      (Some (ascii ''Password''), Some (ascii ''p'')), (Some (ascii ''URL''), None),
      (Some (ascii ''Title''), Some (ascii ''t'')), (Some (ascii ''otp''), None)]
   \<and> KeepassXCEntry_init None (Some (ascii ''p'')) None (Some (ascii ''t'')) (Some []) None \<noteq>
       KeepassXCEntry_init (Some []) (Some (ascii ''p'')) (Some []) (Some (ascii ''t'')) (Some [])
         (Some [])"
proof -
  have "KeepassXCEntry_init None (Some (ascii ''p'')) None (Some (ascii ''t'')) (Some []) None \<noteq>
       KeepassXCEntry_init (Some []) (Some (ascii ''p'')) (Some []) (Some (ascii ''t'')) (Some [])
         (Some [])"
    by (simp add: KeepassXCEntry_init_shape string_field_def)
  then show ?thesis
    by (simp add: string_fields_entry)
qed

text \<open>
  Claim C6, amended. Whatever the six arguments are, absent ones included, the entry
  has exactly six \<^verbatim>\<open>String\<close> fields, with the keys Notes, UserName, Password, URL,
  Title, otp in this order, each with the value it was given (no text for an absent
  one); no field is left out. An absent value is written exactly as the empty string
  is: the text of the entry does not change when every absent argument is replaced by
  the empty string.
\<close>

theorem C6_six_fields_in_order:
  "string_fields (KeepassXCEntry_init username password url title notes totp) =
     [(Some (ascii ''Notes''), notes), (Some (ascii ''UserName''), username),
      (Some (ascii ''Password''), password), (Some (ascii ''URL''), url),
      (Some (ascii ''Title''), title), (Some (ascii ''otp''), totp)]
   \<and> tostring (KeepassXCEntry_init username password url title notes totp) =
       tostring (KeepassXCEntry_init (or_empty username) (or_empty password) (or_empty url)
                   (or_empty title) (or_empty notes) (or_empty totp))
   \<and> tostring (KeepassXCEntry_init username password url title notes totp) =
       ascii ''<Entry>'' @ field_xml (ascii ''Notes'') notes
       @ field_xml (ascii ''UserName'') username @ field_xml (ascii ''Password'') password
       @ field_xml (ascii ''URL'') url @ field_xml (ascii ''Title'') title
       @ field_xml (ascii ''otp'') totp @ auto_type_xml @ ascii ''</Entry>''"
  by (simp add: string_fields_entry tostring_entry entry_xml_def field_xml_or_empty)

text \<open>
  Claim C7. The claim says that only Password, Notes and otp carry the marking
  \<^verbatim>\<open>ProtectInMemory\<close>. \<^verbatim>\<open>add_string_field\<close> sets it on every value it adds: in every
  entry all six fields carry it, Title, URL and UserName too.
\<close>

theorem C7_every_field_is_protected:
  "protected_keys (KeepassXCEntry_init username password url title notes totp) =
     [Some (ascii ''Notes''), Some (ascii ''UserName''), Some (ascii ''Password''),
      Some (ascii ''URL''), Some (ascii ''Title''), Some (ascii ''otp'')]"
  by (simp add: KeepassXCEntry_init_shape protected_keys_def protected_def find_child_def
        string_field_def auto_type_def)

text \<open>
  Claim C9. After any sequence of \<^verbatim>\<open>add_group\<close> calls on a new document (\<open>gs\<close> lists
  the name and the entries of each call, in order), the \<^verbatim>\<open>KeePassFile\<close> element has one
  child \<^verbatim>\<open>Root\<close>, which has one child \<^verbatim>\<open>Group\<close> named Root, whose children after its
  name are exactly one \<^verbatim>\<open>Group\<close> per call, in the order of the calls, each holding its
  name and its entries; the text of the document is the text of these groups, in order,
  inside the text of the root group; and every entry has the six keys in the fixed
  order.
\<close>

theorem C9_groups_in_insertion_order:
  "KeePassFile (fold (\<lambda>(name, as). add_group name (map entry_of as)) gs KeepassXCDump_init) =
     Element (ascii ''KeePassFile'') [] None None
       [Element (ascii ''Root'') [] None None
          [Element (ascii ''Group'') [] None None
             (Element (ascii ''Name'') [] (Some (ascii ''Root'')) None [] #
              map (\<lambda>(name, as).
                     Element (ascii ''Group'') [] None None
                       (Element (ascii ''Name'') [] (Some name) None [] # map entry_of as)) gs)]]
   \<and> KeepassXCDump_str
         (fold (\<lambda>(name, as). add_group name (map entry_of as)) gs KeepassXCDump_init) =
       ascii ''<KeePassFile><Root><Group><Name>Root</Name>'' @ concat (map group_xml gs)
       @ ascii ''</Group></Root></KeePassFile>''
   \<and> map fst (string_fields (entry_of a)) =
       [Some (ascii ''Notes''), Some (ascii ''UserName''), Some (ascii ''Password''),
        Some (ascii ''URL''), Some (ascii ''Title''), Some (ascii ''otp'')]"
proof -
  let ?out = "fold (\<lambda>(name, as). add_group name (map entry_of as)) gs KeepassXCDump_init"
  have keys: "map fst (string_fields (entry_of a)) =
       [Some (ascii ''Notes''), Some (ascii ''UserName''), Some (ascii ''Password''),
        Some (ascii ''URL''), Some (ascii ''Title''), Some (ascii ''otp'')]"
    by (cases a) (simp add: entry_of_def string_fields_entry)
  have doc: "KeepassXCDump_str ?out =
       ascii ''<KeePassFile><Root><Group><Name>Root</Name>'' @ concat (map group_xml gs)
       @ ascii ''</Group></Root></KeePassFile>''"
    by (simp only: add_groups_shape KeepassXCDump_str_def tostring_def serialize_document
          KeepassXCDump.simps)
  have tree: "KeePassFile ?out =
     Element (ascii ''KeePassFile'') [] None None
       [Element (ascii ''Root'') [] None None
          [Element (ascii ''Group'') [] None None
             (Element (ascii ''Name'') [] (Some (ascii ''Root'')) None [] #
              map (\<lambda>(name, as).
                     Element (ascii ''Group'') [] None None
                       (Element (ascii ''Name'') [] (Some name) None [] # map entry_of as)) gs)]]"
    by (simp add: add_groups_shape document_def group_elem_def name_elem_def)
  from tree doc keys show ?thesis by blast
qed

text \<open>
  Claim C2. The claim says that each of the five characters \<^verbatim>\<open>& < > " '\<close> is escaped
  in group names and field values. Names and values are written as element text, where
  the serializer escapes the ampersand and the angle brackets only: in the group name
  and in the password below the quotation mark and the apostrophe are written as they
  are.
\<close>

theorem C2_quotes_are_written_unescaped:
  "KeepassXCDump_str (add_group (ascii ''\"'<'') [] KeepassXCDump_init) =
     ascii ''<KeePassFile><Root><Group><Name>Root</Name><Group><Name>\"'&lt;</Name></Group></Group></Root></KeePassFile>''
   \<and> tostring (KeepassXCEntry_init None (Some (ascii ''\"'&'')) None None None None) =
     ascii ''<Entry><String><Key>Notes</Key><Value ProtectInMemory=\"True\" /></String><String><Key>UserName</Key><Value ProtectInMemory=\"True\" /></String><String><Key>Password</Key><Value ProtectInMemory=\"True\">\"'&amp;</Value></String><String><Key>URL</Key><Value ProtectInMemory=\"True\" /></String><String><Key>Title</Key><Value ProtectInMemory=\"True\" /></String><String><Key>otp</Key><Value ProtectInMemory=\"True\" /></String><AutoType><Enabled>True</Enabled><DataTransferObfuscation>0</DataTransferObfuscation><DefaultSequence /></AutoType></Entry>''"
proof -
  have "KeepassXCDump_str
          (fold (\<lambda>(name, as). add_group name (map entry_of as)) [(ascii ''\"'<'', [])]
             KeepassXCDump_init) =
     ascii ''<KeePassFile><Root><Group><Name>Root</Name><Group><Name>\"'&lt;</Name></Group></Group></Root></KeePassFile>''"
    unfolding add_groups_shape KeepassXCDump_str_def tostring_def KeepassXCDump.simps
      serialize_document
    by (simp add: group_xml_def name_xml_def escape_char_def)
  then have name: "KeepassXCDump_str (add_group (ascii ''\"'<'') [] KeepassXCDump_init) =
     ascii ''<KeePassFile><Root><Group><Name>Root</Name><Group><Name>\"'&lt;</Name></Group></Group></Root></KeePassFile>''"
    by simp
  have field: "tostring (KeepassXCEntry_init None (Some (ascii ''\"'&'')) None None None None) =
     ascii ''<Entry><String><Key>Notes</Key><Value ProtectInMemory=\"True\" /></String><String><Key>UserName</Key><Value ProtectInMemory=\"True\" /></String><String><Key>Password</Key><Value ProtectInMemory=\"True\">\"'&amp;</Value></String><String><Key>URL</Key><Value ProtectInMemory=\"True\" /></String><String><Key>Title</Key><Value ProtectInMemory=\"True\" /></String><String><Key>otp</Key><Value ProtectInMemory=\"True\" /></String><AutoType><Enabled>True</Enabled><DataTransferObfuscation>0</DataTransferObfuscation><DefaultSequence /></AutoType></Entry>''"
    unfolding tostring_entry
    by (simp add: entry_xml_def field_xml_def key_xml_def value_xml_def escape_char_def
          auto_type_xml_def)
  from name field show ?thesis by blast
qed

text \<open>
  Claim C2, amended. In the text of a group name and of a field value every ampersand
  and angle bracket is written as its entity and every other character, the quotation
  mark and the apostrophe included, as it is: the document of one group is the text of
  its name and of its entries, both written with \<open>escape_char\<close>.
\<close>

theorem C2_text_escapes_three_characters:
  "escape_cdata t = concat (map escape_char t)
   \<and> escape_char 0x22 = [0x22] \<and> escape_char 0x27 = [0x27]
   \<and> KeepassXCDump_str (add_group name (map entry_of as) KeepassXCDump_init) =
       ascii ''<KeePassFile><Root><Group><Name>Root</Name><Group>'' @ name_xml name
       @ concat (map entry_xml as) @ ascii ''</Group></Group></Root></KeePassFile>''"
proof -
  have "KeepassXCDump_str
          (fold (\<lambda>(name, as). add_group name (map entry_of as)) [(name, as)]
             KeepassXCDump_init) =
       ascii ''<KeePassFile><Root><Group><Name>Root</Name><Group>'' @ name_xml name
       @ concat (map entry_xml as) @ ascii ''</Group></Group></Root></KeePassFile>''"
    unfolding add_groups_shape KeepassXCDump_str_def tostring_def KeepassXCDump.simps
      serialize_document
    by (simp add: group_xml_def)
  then show ?thesis
    by (simp add: escape_cdata_chars escape_char_def)
qed

section \<open>Properties of the driver\<close>














section \<open>Claims about the driver\<close>









text \<open>
  Claim C10. With at least the program name in \<^verbatim>\<open>argv\<close> the run never ends through
  the \<^verbatim>\<open>sys.exit(1)\<close> of the argument check, and with the program name alone it ends
  with an IndexError nobody catches, raised by \<^verbatim>\<open>sys.argv[1]\<close>.
\<close>

theorem C10_argument_check_is_dead:
  "(argv \<noteq> [] \<longrightarrow> main argv fs \<noteq> Exit 1 out)
   \<and> (length argv = 1 \<longrightarrow>
        main argv fs = Raised IndexError \<and> exit_status (main argv fs) = 1)"
  by (auto simp: main_def getitem_def split: sum.splits)

theorem C10_argument_check_is_dead_witness:
  "main [ascii ''pass-to-keepassxc.py''] (\<lambda>p. None) = Raised IndexError
   \<and> exit_status (main [ascii ''pass-to-keepassxc.py''] (\<lambda>p. None)) = 1
   \<and> main [ascii ''pass-to-keepassxc.py''] (\<lambda>p. None) \<noteq> Exit 1 []"
  using C10_argument_check_is_dead [of "[ascii ''pass-to-keepassxc.py'']" "\<lambda>p. None" "[]"]
  by simp

end
